theory Spec2Isabelle
  imports Complex_Main
begin

section \<open>Python text\<close>

text \<open>
  A Python \<open>str\<close> is a sequence of Unicode code points, so a text is a list of natural
  numbers: the currency signs the program strips (the euro sign is U+20AC, the rupee sign
  U+20B9) do not fit the 8-bit characters of HOL's \<open>string\<close>. \<open>lit\<close> reads an ASCII
  literal as such a text.
\<close>

type_synonym pystr = "nat list"

abbreviation lit :: "string \<Rightarrow> pystr" where
  "lit s \<equiv> map of_char s"

text \<open>
  \<open>str.isspace\<close> of one code point, as CPython's Unicode database has it; \<open>str.strip()\<close>
  and the class \<open>\s\<close> of a \<open>str\<close> pattern both use this set.
\<close>

definition isspace :: "nat \<Rightarrow> bool" where
  "isspace c \<longleftrightarrow>
     (9 \<le> c \<and> c \<le> 13) \<or> (28 \<le> c \<and> c \<le> 32) \<or> c = 133 \<or> c = 160 \<or> c = 5760 \<or>
     (8192 \<le> c \<and> c \<le> 8202) \<or> c = 8232 \<or> c = 8233 \<or> c = 8239 \<or> c = 8287 \<or> c = 12288"

text \<open>\<open>s.strip()\<close>: leading and trailing whitespace removed.\<close>

definition strip :: "pystr \<Rightarrow> pystr" where
  "strip s = rev (dropWhile isspace (rev (dropWhile isspace s)))"

text \<open>
  \<open>s.lower()\<close>. The mapping is Python's on the code points below 256 (the ASCII capitals
  and the Latin-1 capitals U+00C0 to U+00DE without the multiplication sign U+00D7, each
  32 below its small letter). Code points from 256 on are returned as they are: Python's
  case mapping of those is outside this model.
\<close>

definition lower_cp :: "nat \<Rightarrow> nat" where
  "lower_cp c =
     (if (65 \<le> c \<and> c \<le> 90) \<or> (192 \<le> c \<and> c \<le> 214) \<or> (216 \<le> c \<and> c \<le> 222)
      then c + 32 else c)"

definition lower :: "pystr \<Rightarrow> pystr" where
  "lower s = map lower_cp s"

text \<open>\<open>s.startswith(p)\<close>, \<open>s.endswith(p)\<close> and \<open>w in s\<close>.\<close>

fun startswith :: "pystr \<Rightarrow> pystr \<Rightarrow> bool" where
  "startswith s [] = True"
| "startswith [] (p # ps) = False"
| "startswith (c # cs) (p # ps) = (c = p \<and> startswith cs ps)"

definition endswith :: "pystr \<Rightarrow> pystr \<Rightarrow> bool" where
  "endswith s p = startswith (rev s) (rev p)"

fun contains :: "pystr \<Rightarrow> pystr \<Rightarrow> bool" where
  "contains [] w = (w = [])"
| "contains (c # cs) w = (startswith (c # cs) w \<or> contains cs w)"

section \<open>Library functions and table cells\<close>

text \<open>
  The program calls into Python and pandas. What those calls return is not part of the
  repository, so the model takes them as a record of functions:
  \<^item> \<open>py_float s\<close> is \<open>float(s)\<close> on a text, \<open>None\<close> when it raises \<open>ValueError\<close>;
  \<^item> \<open>float_str x\<close> is \<open>str(x)\<close> of a float and \<open>stamp_str t\<close> of a timestamp;
  \<^item> \<open>to_datetime s fmt\<close> is \<open>pd.to_datetime(s, format=fmt)\<close> and \<open>infer_datetime s\<close> is
    \<open>pd.to_datetime(s, infer_datetime_format=True)\<close>, \<open>None\<close> when the call raises;
  \<^item> \<open>exn_str e\<close> is \<open>str(e)\<close> of an exception.

  Floats are idealised as real numbers: sums are exact, and \<open>inf\<close> and \<open>nan\<close> are not
  values of the model.
\<close>

datatype exn =
    IndexError
  | KeyError
  | ValueError
  | ReadError pystr
  | HTTPException nat pystr

record 'd lib =
  py_float :: "pystr \<Rightarrow> real option"
  float_str :: "real \<Rightarrow> pystr"
  stamp_str :: "'d \<Rightarrow> pystr"
  to_datetime :: "pystr \<Rightarrow> pystr \<Rightarrow> 'd option"
  infer_datetime :: "pystr \<Rightarrow> 'd option"
  exn_str :: "exn \<Rightarrow> pystr"

text \<open>
  A cell of a data frame: a missing value (\<open>NaN\<close>), a text, a float (the cleaned
  amounts), or what \<open>clean_date\<close> returned (a timestamp, or Python's \<open>None\<close>). A number or
  a truth value that \<open>read_csv\<close> inferred is seen by the cleaning functions through
  \<open>str()\<close> only, where it is never empty, so it stands in the model as the text it prints.
\<close>

datatype 'd cell = NA | Str pystr | Flt real | Date "'d option"

text \<open>\<open>pd.isna(x)\<close>, \<open>str(x)\<close>.\<close>

fun isna :: "'d cell \<Rightarrow> bool" where
  "isna NA = True"
| "isna (Date None) = True"
| "isna _ = False"

fun py_str :: "'d lib \<Rightarrow> 'd cell \<Rightarrow> pystr" where
  "py_str L (Str s) = s"
| "py_str L (Flt x) = float_str L x"
| "py_str L (Date (Some t)) = stamp_str L t"
| "py_str L (Date None) = lit ''None''"
| "py_str L NA = lit ''nan''"

section \<open>The cleaning functions\<close>

text \<open>
  \<open>re.sub(r'[$...,\s]', '', s)\<close>: the class holds the dollar, euro, pound, yen and rupee
  signs, the comma, and \<open>\s\<close>.
\<close>

definition currency_chars :: "nat list" where
  "currency_chars = [36, 8364, 163, 165, 8377, 44]"

definition in_amount_class :: "nat \<Rightarrow> bool" where
  "in_amount_class c \<longleftrightarrow> c \<in> set currency_chars \<or> isspace c"

definition sub_amount_class :: "pystr \<Rightarrow> pystr" where
  "sub_amount_class s = filter (\<lambda>c. \<not> in_amount_class c) s"

text \<open>The text that \<open>clean_amount\<close> hands to \<open>float()\<close>: lines 26 to 33.\<close>

definition amount_text :: "pystr \<Rightarrow> pystr" where
  "amount_text s0 =
     (let s = strip s0;
          s = sub_amount_class s
      in if startswith s (lit ''('') \<and> endswith s (lit '')'')
         then lit ''-'' @ butlast (tl s)
         else s)"

definition clean_amount :: "'d lib \<Rightarrow> 'd cell \<Rightarrow> real" where
  "clean_amount L amount_str =
     (if isna amount_str \<or> amount_str = Str [] then 0
      else case py_float L (amount_text (py_str L amount_str)) of
             Some v \<Rightarrow> v
           | None \<Rightarrow> 0)"

definition clean_category :: "'d lib \<Rightarrow> 'd cell \<Rightarrow> pystr" where
  "clean_category L category_str =
     (if isna category_str then [] else lower (strip (py_str L category_str)))"

definition date_formats :: "pystr list" where
  "date_formats = map lit
     [''%Y-%m-%d'', ''%m/%d/%Y'', ''%d/%m/%Y'', ''%m-%d-%Y'', ''%d-%m-%Y'',
      ''%Y/%m/%d'', ''%d.%m.%Y'', ''%m.%d.%Y'', ''%Y.%m.%d'',
      ''%B %d, %Y'', ''%b %d, %Y'', ''%d %B %Y'', ''%d %b %Y'']"

text \<open>The loop over the formats: the first call that does not raise returns.\<close>

fun try_formats :: "'d lib \<Rightarrow> pystr \<Rightarrow> pystr list \<Rightarrow> 'd option" where
  "try_formats L s [] = None"
| "try_formats L s (fmt # fmts) =
     (case to_datetime L s fmt of
        Some t \<Rightarrow> Some t
      | None \<Rightarrow> try_formats L s fmts)"

definition clean_date :: "'d lib \<Rightarrow> 'd cell \<Rightarrow> 'd option" where
  "clean_date L date_str =
     (if isna date_str \<or> date_str = Str [] then None
      else let s = strip (py_str L date_str)
           in case try_formats L s date_formats of
                Some t \<Rightarrow> Some t
              | None \<Rightarrow> infer_datetime L s)"

section \<open>Data frames\<close>

text \<open>
  A data frame is the list of its columns in table order, each a name with its cells.
  \<open>read_csv\<close> gives every column the same number of cells (\<open>wf_frame\<close>). The spec's data
  model takes the names to be distinct once trimmed and lower-cased; on a name that several
  columns carry pandas hands back a sub-frame where the program expects a series, which the
  model renders as a raised \<open>ValueError\<close>, and the theorems below do not rest on that case.
\<close>

type_synonym 'd frame = "(pystr \<times> 'd cell list) list"

definition columns :: "'d frame \<Rightarrow> pystr list" where
  "columns df = map fst df"

definition wf_frame :: "'d frame \<Rightarrow> bool" where
  "wf_frame df \<longleftrightarrow> (\<exists>n. list_all (\<lambda>p. length (snd p) = n) df)"

text \<open>\<open>df[name]\<close> and \<open>df[name] = series\<close>.\<close>

definition getitem :: "'d frame \<Rightarrow> pystr \<Rightarrow> exn + 'd cell list" where
  "getitem df name =
     (case filter (\<lambda>p. fst p = name) df of
        [] \<Rightarrow> Inl KeyError
      | [p] \<Rightarrow> Inr (snd p)
      | _ \<Rightarrow> Inl ValueError)"

definition setitem :: "'d frame \<Rightarrow> pystr \<Rightarrow> 'd cell list \<Rightarrow> 'd frame" where
  "setitem df name series =
     (if name \<in> set (columns df)
      then map (\<lambda>p. if fst p = name then (name, series) else p) df
      else df @ [(name, series)])"

text \<open>\<open>df.columns = df.columns.str.strip().str.lower()\<close>.\<close>

definition canonical :: "pystr \<Rightarrow> pystr" where
  "canonical name = lower (strip name)"

definition clean_columns :: "'d frame \<Rightarrow> 'd frame" where
  "clean_columns df = map (\<lambda>p. (canonical (fst p), snd p)) df"

section \<open>Column inference\<close>

definition amount_words :: "pystr list" where
  "amount_words = map lit [''amount'', ''cost'', ''price'', ''total'', ''spend'', ''expense'']"

definition category_words :: "pystr list" where
  "category_words = map lit [''category'', ''type'', ''class'', ''group'']"

definition date_words :: "pystr list" where
  "date_words = map lit [''date'', ''time'', ''day'']"

text \<open>
  The conditions of the three comprehensions, lines 89 to 91:
  \<open>any(word in col for word in [...])\<close>.
\<close>

definition amount_like :: "pystr \<Rightarrow> bool" where
  "amount_like col = list_ex (\<lambda>word. contains col word) amount_words"

definition category_like :: "pystr \<Rightarrow> bool" where
  "category_like col = list_ex (\<lambda>word. contains col word) category_words"

definition date_like :: "pystr \<Rightarrow> bool" where
  "date_like col = list_ex (\<lambda>word. contains col word) date_words"

definition amount_cols :: "pystr list \<Rightarrow> pystr list" where
  "amount_cols cols = filter amount_like cols"

definition category_cols :: "pystr list \<Rightarrow> pystr list" where
  "category_cols cols = filter category_like cols"

definition date_cols :: "pystr list \<Rightarrow> pystr list" where
  "date_cols cols = filter date_like cols"

text \<open>
  Line 94. On a table without columns \<open>df.columns[0]\<close> raises \<open>IndexError\<close>.
\<close>

definition amount_col :: "pystr list \<Rightarrow> exn + pystr" where
  "amount_col cols =
     (case amount_cols cols of
        c # _ \<Rightarrow> Inr c
      | [] \<Rightarrow> (if length cols > 1 then Inr (cols ! 1)
               else case cols of [] \<Rightarrow> Inl IndexError | c # _ \<Rightarrow> Inr c))"

text \<open>Line 95; \<open>None\<close> is Python's \<open>None\<close>.\<close>

definition category_col :: "pystr list \<Rightarrow> pystr option" where
  "category_col cols =
     (case category_cols cols of
        c # _ \<Rightarrow> Some c
      | [] \<Rightarrow> (if length cols > 0 then Some (cols ! 0) else None))"

section \<open>The food filter and the sum\<close>

definition food_keywords :: "pystr list" where
  "food_keywords = map lit
     [''food'', ''restaurant'', ''grocery'', ''dining'', ''meal'', ''lunch'', ''dinner'',
      ''breakfast'', ''cafe'', ''fast food'', ''takeout'']"

text \<open>\<open>sep.join(xs)\<close>.\<close>

fun join :: "pystr \<Rightarrow> pystr list \<Rightarrow> pystr" where
  "join sep [] = []"
| "join sep [x] = x"
| "join sep (x # y # ys) = x @ sep @ join sep (y # ys)"

text \<open>
  Searching a regular expression in a text, for the patterns whose only metacharacter is
  the bar: such a pattern is an alternation of literal texts, found in \<open>s\<close> when one of
  them occurs in \<open>s\<close>. The one pattern the program builds is of this kind.
\<close>

fun split_on :: "nat \<Rightarrow> pystr \<Rightarrow> pystr list" where
  "split_on c [] = [[]]"
| "split_on c (x # xs) =
     (if x = c then [] # split_on c xs
      else case split_on c xs of
             [] \<Rightarrow> [[x]]
           | r # rs \<Rightarrow> (x # r) # rs)"

definition re_search :: "pystr \<Rightarrow> pystr \<Rightarrow> bool" where
  "re_search pat s = list_ex (\<lambda>alt. contains s alt) (split_on 124 pat)"

text \<open>\<open>series.str.contains(pat, na=False)\<close> on one cell: a cell that is no text gives \<open>False\<close>.\<close>

fun str_contains :: "pystr \<Rightarrow> 'd cell \<Rightarrow> bool" where
  "str_contains pat (Str s) = re_search pat s"
| "str_contains pat _ = False"

text \<open>
  \<open>df[mask][name].sum()\<close>: the cells of the rows the mask keeps, summed. The column summed
  is the one of cleaned amounts, all floats; a missing value is skipped by pandas.
\<close>

fun float_value :: "'d cell \<Rightarrow> real" where
  "float_value (Flt x) = x"
| "float_value _ = 0"

definition masked :: "bool list \<Rightarrow> 'a list \<Rightarrow> 'a list" where
  "masked keep xs = map snd (filter fst (zip keep xs))"

definition series_sum :: "'d cell list \<Rightarrow> real" where
  "series_sum xs = sum_list (map float_value xs)"

text \<open>\<open>round(x, 2)\<close> on the idealised floats: to the nearest hundredth, a tie to the even one.\<close>

definition round2 :: "real \<Rightarrow> real" where
  "round2 x =
     (let y = x * 100;
          f = \<lfloor>y\<rfloor>;
          d = y - of_int f
      in of_int (if d < 1 / 2 then f
                 else if 1 / 2 < d then f + 1
                 else if even f then f else f + 1) / 100)"

section \<open>The analyze operation\<close>

record result =
  answer :: real
  email :: pystr
  exam :: pystr

text \<open>
  An exception leaves the \<open>try\<close> block at the statement that raises it: \<open>seq r f\<close> goes on
  with \<open>f\<close> when \<open>r\<close> returned and stops with the exception when it raised.
\<close>

fun seq :: "exn + 'a \<Rightarrow> ('a \<Rightarrow> exn + 'b) \<Rightarrow> exn + 'b" where
  "seq (Inl e) f = Inl e"
| "seq (Inr x) f = f x"

text \<open>Lines 101 and 102: the two cleaned columns, written one after the other.\<close>

definition clean_data :: "'d lib \<Rightarrow> 'd frame \<Rightarrow> pystr \<Rightarrow> pystr \<Rightarrow> exn + 'd frame" where
  "clean_data L df acol ccol =
     seq (getitem df acol) (\<lambda>amounts.
       let df1 = setitem df (lit ''clean_amount'') (map (\<lambda>x. Flt (clean_amount L x)) amounts)
       in seq (getitem df1 ccol) (\<lambda>categories.
            Inr (setitem df1 (lit ''clean_category'')
                   (map (\<lambda>x. Str (clean_category L x)) categories))))"

text \<open>Lines 105 to 107: the cleaned dates, when a header is date-like.\<close>

definition clean_dates :: "'d lib \<Rightarrow> 'd frame \<Rightarrow> pystr list \<Rightarrow> exn + 'd frame" where
  "clean_dates L df dcols =
     (case dcols of
        [] \<Rightarrow> Inr df
      | dcol # _ \<Rightarrow>
          seq (getitem df dcol) (\<lambda>dates.
            Inr (setitem df (lit ''clean_date'') (map (\<lambda>x. Date (clean_date L x)) dates))))"

text \<open>Lines 110 to 114: the mask of the food rows and the sum of their cleaned amounts.\<close>

definition food_mask :: "'d cell list \<Rightarrow> bool list" where
  "food_mask cats = map (str_contains (join (lit ''|'') food_keywords)) cats"

definition food_spending :: "'d frame \<Rightarrow> exn + real" where
  "food_spending df =
     seq (getitem df (lit ''clean_category'')) (\<lambda>cats.
       seq (getitem df (lit ''clean_amount'')) (\<lambda>amts.
         Inr (series_sum (masked (food_mask cats) amts))))"

text \<open>
  The body of the \<open>try\<close> block, lines 82 to 120. \<open>upload\<close> is what reading, decoding and
  parsing the payload gave: the frame of \<open>read_csv\<close>, or the exception raised on the way.
\<close>

definition process :: "'d lib \<Rightarrow> exn + 'd frame \<Rightarrow> exn + result" where
  "process L upload =
     seq upload (\<lambda>df0.
       let df = clean_columns df0;
           cols = columns df
       in seq (amount_col cols) (\<lambda>acol.
            seq (case category_col cols of
                   None \<Rightarrow> Inl (HTTPException 400 (lit ''Could not identify category column''))
                 | Some c \<Rightarrow> Inr c) (\<lambda>ccol.
              seq (clean_data L df acol ccol) (\<lambda>df1.
                seq (clean_dates L df1 (date_cols cols)) (\<lambda>df2.
                  seq (food_spending df2) (\<lambda>total.
                    Inr \<lparr>answer = round2 total,
                         email = lit ''analyst@example.com'',
                         exam = lit ''tds-2025-05-roe''\<rparr>))))))"

text \<open>
  The handler: lines 77 and 78 raise outside the \<open>try\<close>; whatever the \<open>try\<close> block raises,
  an \<open>HTTPException\<close> too, is caught by \<open>except Exception\<close> and raised again with status 500.
\<close>

definition analyze_csv :: "'d lib \<Rightarrow> pystr \<Rightarrow> exn + 'd frame \<Rightarrow> exn + result" where
  "analyze_csv L filename upload =
     (if \<not> endswith filename (lit ''.csv'')
      then Inl (HTTPException 400 (lit ''File must be a CSV''))
      else case process L upload of
             Inr r \<Rightarrow> Inr r
           | Inl e \<Rightarrow> Inl (HTTPException 500 (lit ''Error processing CSV: '' @ exn_str L e)))"

section \<open>A concrete library\<close>

text \<open>
  One instance of the library record, to run the model on examples. \<open>decimal_float\<close> is
  \<open>float()\<close> on the plain decimal literals (an optional sign, digits, an optional point and
  digits) and raises on every other text; \<open>iso_date\<close> reads the one format \<open>%Y-%m-%d\<close>
  into year, month and day. The entries the examples never call are constant.
\<close>

definition is_digit :: "nat \<Rightarrow> bool" where
  "is_digit c \<longleftrightarrow> 48 \<le> c \<and> c \<le> 57"

definition digits_value :: "pystr \<Rightarrow> nat" where
  "digits_value s = foldl (\<lambda>n c. 10 * n + (c - 48)) 0 s"

definition decimal_float :: "pystr \<Rightarrow> real option" where
  "decimal_float s0 =
     (let s = strip s0;
          neg = startswith s (lit ''-'');
          body = (if neg \<or> startswith s (lit ''+'') then tl s else s);
          ip = takeWhile is_digit body;
          rest = dropWhile is_digit body;
          fp = (if startswith rest (lit ''.'') then tl rest else rest)
      in if list_all is_digit fp \<and> (ip \<noteq> [] \<or> fp \<noteq> [])
         then Some ((if neg then - 1 else 1) * real (digits_value (ip @ fp)) / 10 ^ length fp)
         else None)"

definition iso_date :: "pystr \<Rightarrow> (nat \<times> nat \<times> nat) option" where
  "iso_date s =
     (let y = take 4 s; m = take 2 (drop 5 s); d = drop 8 s
      in if length s = 10 \<and> take 1 (drop 4 s) = lit ''-'' \<and> take 1 (drop 7 s) = lit ''-'' \<and>
            list_all is_digit (y @ m @ d) \<and>
            1 \<le> digits_value m \<and> digits_value m \<le> 12 \<and>
            1 \<le> digits_value d \<and> digits_value d \<le> 31
         then Some (digits_value y, digits_value m, digits_value d)
         else None)"

fun exn_text :: "exn \<Rightarrow> pystr" where
  "exn_text IndexError = lit ''index 0 is out of bounds for axis 0 with size 0''"
| "exn_text KeyError = lit ''KeyError''"
| "exn_text ValueError = lit ''The truth value of a Series is ambiguous''"
| "exn_text (ReadError m) = m"
| "exn_text (HTTPException c d) = d"

definition simple_lib :: "(nat \<times> nat \<times> nat) lib" where
  "simple_lib =
     \<lparr>py_float = decimal_float,
      float_str = (\<lambda>x. lit ''0.0''),
      stamp_str = (\<lambda>t. lit ''2024-01-01 00:00:00''),
      to_datetime = (\<lambda>s fmt. if fmt = lit ''%Y-%m-%d'' then iso_date s else None),
      infer_datetime = (\<lambda>s. None),
      exn_str = exn_text\<rparr>"


definition example_frame' :: "(nat \<times> nat \<times> nat) frame" where
  "example_frame' =
     [(lit '' Date'', [NA, Str (lit ''02/01/2024''), Str (lit ''2023-12-31'')]),
      (lit ''Category'', [Str (lit ''Grocery Store''), Str (lit ''Transport''), Str (lit '' FAST FOOD'')]),
      (lit ''Amount '', [Str (lit ''$50.00''), Str (lit ''20''), Str (lit ''(12.345)'')])]"

section \<open>The spec's words\<close>

text \<open>
  The spec's account of the text the Amount Normalizer parses: every currency sign, comma
  and whitespace character stripped anywhere in the text, then, when what remains is
  wrapped in parentheses, the parentheses dropped and a minus sign put in front.
\<close>

definition amount_text_spec :: "pystr \<Rightarrow> pystr" where
  "amount_text_spec s =
     (let t = filter (\<lambda>c. c \<notin> {36, 8364, 163, 165, 8377, 44} \<and> \<not> isspace c) s
      in if t \<noteq> [] \<and> hd t = 40 \<and> last t = 41 then 45 # butlast (tl t) else t)"



text \<open>
  Two frames agree when they have the same column names and the same two cleaned columns,
  which is all that lines 110 to 114 read.
\<close>

definition agree :: "'d frame \<Rightarrow> 'd frame \<Rightarrow> bool" where
  "agree a b \<longleftrightarrow>
     columns a = columns b \<and>
     getitem a (lit ''clean_category'') = getitem b (lit ''clean_category'') \<and>
     getitem a (lit ''clean_amount'') = getitem b (lit ''clean_amount'')"

section \<open>Texts: substrings, trimming, lower case\<close>

lemma startswith_iff: "startswith s p \<longleftrightarrow> (\<exists>r. s = p @ r)"
  by (induction s p rule: startswith.induct) auto

lemma contains_iff: "contains s w \<longleftrightarrow> (\<exists>a b. s = a @ w @ b)"
proof (induction s)
  case Nil
  then show ?case by auto
next
  case (Cons c cs)
  have "(\<exists>a b. c # cs = a @ w @ b) \<longleftrightarrow> (\<exists>b. c # cs = w @ b) \<or> (\<exists>a b. cs = a @ w @ b)"
  proof
    assume "\<exists>a b. c # cs = a @ w @ b"
    then obtain a b where ab: "c # cs = a @ w @ b" by blast
    show "(\<exists>b. c # cs = w @ b) \<or> (\<exists>a b. cs = a @ w @ b)"
    proof (cases a)
      case Nil
      with ab show ?thesis by auto
    next
      case (Cons x a')
      with ab have "cs = a' @ w @ b" by simp
      then show ?thesis by blast
    qed
  next
    assume "(\<exists>b. c # cs = w @ b) \<or> (\<exists>a b. cs = a @ w @ b)"
    then show "\<exists>a b. c # cs = a @ w @ b"
    proof
      assume "\<exists>b. c # cs = w @ b"
      then obtain b where "c # cs = [] @ w @ b" by auto
      then show ?thesis by blast
    next
      assume "\<exists>a b. cs = a @ w @ b"
      then obtain a b where "c # cs = (c # a) @ w @ b" by auto
      then show ?thesis by blast
    qed
  qed
  with Cons show ?case by (simp add: startswith_iff)
qed










section \<open>Evaluation\<close>

lemmas text_eval =
  strip_def isspace_def lower_def lower_cp_def endswith_def canonical_def
  amount_text_def sub_amount_class_def in_amount_class_def currency_chars_def

lemmas lib_eval =
  simple_lib_def decimal_float_def is_digit_def digits_value_def iso_date_def

section \<open>The Category Normalizer\<close>



section \<open>The Amount Normalizer\<close>

text \<open>
  Claim C7. The Amount Normalizer is total. \<open>clean_amount\<close> is a function from cells to
  floats with no exception among its results: the one call that can raise, \<open>float()\<close>,
  raises \<open>ValueError\<close> only, which the \<open>except\<close> clause catches. It returns \<open>0.0\<close> on every
  missing value, on the empty text, and on every input whose cleaned text \<open>float()\<close>
  refuses.
\<close>

theorem amount_normalizer_total:
  "(isna x \<longrightarrow> clean_amount L x = 0) \<and>
   clean_amount L (Str []) = 0 \<and>
   (py_float L (amount_text (py_str L x)) = None \<longrightarrow> clean_amount L x = 0)"
  by (simp add: clean_amount_def)

theorem amount_normalizer_total_witness:
  "isna (NA :: (nat \<times> nat \<times> nat) cell) \<and>
   clean_amount simple_lib NA = 0 \<and>
   clean_amount simple_lib (Str []) = 0 \<and>
   py_float simple_lib (amount_text (py_str simple_lib (Str (lit ''n/a'')))) = None \<and>
   clean_amount simple_lib (Str (lit ''n/a'')) = 0"
proof -
  have h: "py_float simple_lib (amount_text (py_str simple_lib (Str (lit ''n/a'')))) = None"
    by (simp add: text_eval lib_eval)
  show ?thesis
    using h amount_normalizer_total [of NA simple_lib]
      amount_normalizer_total [of "Str (lit ''n/a'')" simple_lib]
    by simp
qed

lemma filter_dropWhile:
  "(\<And>c. Q c \<Longrightarrow> \<not> P c) \<Longrightarrow> filter P (dropWhile Q s) = filter P s"
  by (induction s) auto

lemma filter_strip:
  assumes "\<And>c. isspace c \<Longrightarrow> \<not> P c"
  shows "filter P (strip s) = filter P s"
proof -
  have "filter P (strip s) = rev (filter P (dropWhile isspace (rev (dropWhile isspace s))))"
    by (simp only: strip_def rev_filter)
  also have "\<dots> = rev (filter P (rev (dropWhile isspace s)))"
    using assms by (simp add: filter_dropWhile)
  also have "\<dots> = filter P (dropWhile isspace s)"
    by (simp only: rev_filter rev_rev_ident)
  also have "\<dots> = filter P s"
    using assms by (simp add: filter_dropWhile)
  finally show ?thesis .
qed

lemma startswith_single: "startswith t [c] \<longleftrightarrow> t \<noteq> [] \<and> hd t = c"
  by (cases t) auto

lemma endswith_single: "endswith t [c] \<longleftrightarrow> t \<noteq> [] \<and> last t = c"
  by (cases t rule: rev_cases) (auto simp: endswith_def)

lemma amount_text_eq: "amount_text s = amount_text_spec s"
proof -
  have "sub_amount_class (strip s) =
        filter (\<lambda>c. c \<notin> {36, 8364, 163, 165, 8377, 44} \<and> \<not> isspace c) s"
    unfolding sub_amount_class_def
    by (subst filter_strip) (auto simp: in_amount_class_def currency_chars_def)
  then show ?thesis
    by (simp add: amount_text_def amount_text_spec_def Let_def startswith_single endswith_single)
qed

text \<open>
  Claim C3. For every input that is neither missing nor the empty text, the Amount
  Normalizer parses the text the spec describes (\<open>amount_text_spec\<close>: every dollar, euro,
  pound, yen and rupee sign, comma and whitespace character removed wherever it stands,
  then a text wrapped in parentheses turned into a minus sign and its inside) and returns
  \<open>0.0\<close> when \<open>float()\<close> refuses it. The call to \<open>strip()\<close> before the substitution changes
  nothing, the substitution removing all whitespace anyway. With \<open>float()\<close> reading
  \<open>1234.50\<close> and \<open>-42.00\<close> as those numbers, the two examples of the spec follow.
\<close>

theorem amount_normalizer_cleaning:
  "(\<not> isna x \<and> x \<noteq> Str [] \<longrightarrow>
      clean_amount L x =
        (case py_float L (amount_text_spec (py_str L x)) of Some v \<Rightarrow> v | None \<Rightarrow> 0)) \<and>
   (py_float L (lit ''1234.50'') = Some 1234.5 \<longrightarrow>
      clean_amount L (Str (lit ''$1,234.50'')) = 1234.5) \<and>
   (py_float L (lit ''-42.00'') = Some (- 42) \<longrightarrow>
      clean_amount L (Str (lit ''(42.00)'')) = - 42)"
proof (intro conjI impI)
  assume "\<not> isna x \<and> x \<noteq> Str []"
  then show "clean_amount L x =
        (case py_float L (amount_text_spec (py_str L x)) of Some v \<Rightarrow> v | None \<Rightarrow> 0)"
    by (simp add: clean_amount_def amount_text_eq)
next
  have t: "amount_text (lit ''$1,234.50'') = lit ''1234.50''"
    by (simp add: text_eval)
  assume "py_float L (lit ''1234.50'') = Some 1234.5"
  with t show "clean_amount L (Str (lit ''$1,234.50'')) = 1234.5"
    by (simp add: clean_amount_def)
next
  have t: "amount_text (lit ''(42.00)'') = lit ''-42.00''"
    by (simp add: text_eval)
  assume "py_float L (lit ''-42.00'') = Some (- 42)"
  with t show "clean_amount L (Str (lit ''(42.00)'')) = - 42"
    by (simp add: clean_amount_def)
qed

lemma decimal_1234: "decimal_float (lit ''1234.50'') = Some 1234.5"
  by (simp add: text_eval lib_eval)

lemma decimal_42: "decimal_float (lit ''-42.00'') = Some (- 42)"
  by (simp add: text_eval lib_eval)

theorem amount_normalizer_cleaning_witness:
  "py_float simple_lib (lit ''1234.50'') = Some 1234.5 \<and>
   clean_amount simple_lib (Str (lit ''$1,234.50'')) = 1234.5 \<and>
   py_float simple_lib (lit ''-42.00'') = Some (- 42) \<and>
   clean_amount simple_lib (Str (lit ''(42.00)'')) = - 42 \<and>
   amount_text_spec (lit '' ( 1,234.5 ) '') = lit ''-1234.5'' \<and>
   clean_amount simple_lib (Str (lit '' ( 1,234.5 ) '')) = - 1234.5"
proof -
  have a: "py_float simple_lib (lit ''1234.50'') = Some 1234.5"
    using decimal_1234 by (simp add: simple_lib_def)
  have b: "py_float simple_lib (lit ''-42.00'') = Some (- 42)"
    using decimal_42 by (simp add: simple_lib_def)
  have c: "amount_text_spec (lit '' ( 1,234.5 ) '') = lit ''-1234.5''"
    by (simp add: amount_text_spec_def isspace_def)
  have d: "decimal_float (lit ''-1234.5'') = Some (- 1234.5)"
    by (simp add: text_eval lib_eval)
  have e: "\<not> isna (Str (lit '' ( 1,234.5 ) '') :: (nat \<times> nat \<times> nat) cell) \<and>
           (Str (lit '' ( 1,234.5 ) '') :: (nat \<times> nat \<times> nat) cell) \<noteq> Str []"
    by simp
  show ?thesis
    using a b c d e
      amount_normalizer_cleaning [of "Str (lit '' ( 1,234.5 ) '')" simple_lib]
    by (simp add: simple_lib_def)
qed

section \<open>The Date Normalizer\<close>

lemma try_formats_find:
  "try_formats L s fmts =
     (case find (\<lambda>fmt. to_datetime L s fmt \<noteq> None) fmts of
        Some fmt \<Rightarrow> to_datetime L s fmt
      | None \<Rightarrow> None)"
  by (induction fmts) (auto split: option.splits)

lemma clean_date_find:
  "clean_date L x =
     (if isna x \<or> x = Str [] then None
      else case find (\<lambda>fmt. to_datetime L (strip (py_str L x)) fmt \<noteq> None) date_formats of
             Some fmt \<Rightarrow> to_datetime L (strip (py_str L x)) fmt
           | None \<Rightarrow> infer_datetime L (strip (py_str L x)))"
proof (cases "find (\<lambda>fmt. to_datetime L (strip (py_str L x)) fmt \<noteq> None) date_formats")
  case None
  then show ?thesis
    by (simp add: clean_date_def try_formats_find Let_def)
next
  case (Some fmt)
  then have "to_datetime L (strip (py_str L x)) fmt \<noteq> None"
    by (auto simp: find_Some_iff)
  then obtain t where "to_datetime L (strip (py_str L x)) fmt = Some t"
    by auto
  with Some show ?thesis
    by (simp add: clean_date_def try_formats_find Let_def)
qed

text \<open>
  Claim C4. The Date Normalizer returns \<open>None\<close> on a missing value and on the empty text.
  On any other input it returns what the first of the thirteen formats, in the order of
  the list, gives on the trimmed text without raising; when every format raises it
  returns what the generic inference gives, and \<open>None\<close> when that raises too. It is a
  total function into an optional timestamp: no exception is among its results.
\<close>

theorem date_normalizer_ladder:
  "clean_date L x =
     (if isna x \<or> x = Str [] then None
      else case find (\<lambda>fmt. to_datetime L (strip (py_str L x)) fmt \<noteq> None)
                  (map lit
                     [''%Y-%m-%d'', ''%m/%d/%Y'', ''%d/%m/%Y'', ''%m-%d-%Y'', ''%d-%m-%Y'',
                      ''%Y/%m/%d'', ''%d.%m.%Y'', ''%m.%d.%Y'', ''%Y.%m.%d'',
                      ''%B %d, %Y'', ''%b %d, %Y'', ''%d %B %Y'', ''%d %b %Y'']) of
             Some fmt \<Rightarrow> to_datetime L (strip (py_str L x)) fmt
           | None \<Rightarrow> infer_datetime L (strip (py_str L x)))"
  using clean_date_find [of L x] by (simp only: date_formats_def)

theorem date_normalizer_ladder_witness:
  "clean_date simple_lib (Str (lit '' 2024-01-31 '')) = Some (2024, 1, 31) \<and>
   clean_date simple_lib (Str (lit ''31/01/2024'')) = None \<and>
   clean_date simple_lib NA = None \<and>
   clean_date simple_lib (Str []) = None"
  using date_normalizer_ladder [of simple_lib "Str (lit '' 2024-01-31 '')"]
    date_normalizer_ladder [of simple_lib "Str (lit ''31/01/2024'')"]
    date_normalizer_ladder [of simple_lib NA]
    date_normalizer_ladder [of simple_lib "Str []"]
  by (simp add: text_eval lib_eval)


section \<open>The upload's name\<close>

text \<open>
  Claim C9. A file whose name does not end in \<open>.csv\<close> is rejected with the client error
  of line 78 (status 400), whatever reading, decoding and parsing the payload gives or
  raises: the check stands before the \<open>try\<close> block, so the result does not depend on the
  payload.
\<close>

theorem non_csv_rejected:
  "\<not> endswith filename (lit ''.csv'') \<Longrightarrow>
   analyze_csv L filename upload = Inl (HTTPException 400 (lit ''File must be a CSV''))"
  by (simp add: analyze_csv_def)

theorem non_csv_rejected_witness:
  "\<not> endswith (lit ''report.txt'') (lit ''.csv'') \<and>
   analyze_csv simple_lib (lit ''report.txt'') (Inl (ReadError (lit ''undecodable''))) =
     Inl (HTTPException 400 (lit ''File must be a CSV'')) \<and>
   analyze_csv simple_lib (lit ''report.txt'')
       (Inr [(lit ''Category'', [Str (lit ''food'')]), (lit ''Amount'', [Str (lit ''5'')])]) =
     Inl (HTTPException 400 (lit ''File must be a CSV''))"
proof -
  have h: "\<not> endswith (lit ''report.txt'') (lit ''.csv'')"
    by (simp add: endswith_def)
  show ?thesis
    using h
      non_csv_rejected [where L = simple_lib and upload = "Inl (ReadError (lit ''undecodable''))", OF h]
      non_csv_rejected [where L = simple_lib and
        upload = "Inr [(lit ''Category'', [Str (lit ''food'')]), (lit ''Amount'', [Str (lit ''5'')])]", OF h]
    by simp
qed

section \<open>Column inference\<close>

lemma first_of_filter:
  "(case filter P xs of [] \<Rightarrow> a | c # _ \<Rightarrow> f c) = (case find P xs of None \<Rightarrow> a | Some c \<Rightarrow> f c)"
  by (induction xs) auto

lemma list_ex_contains:
  "list_ex (\<lambda>w. contains c w) ws \<longleftrightarrow> (\<exists>w\<in>set ws. \<exists>a b. c = a @ w @ b)"
  by (simp add: list_ex_iff contains_iff)


text \<open>
  Claim C5. On a table with at least one column, the amount column is the first canonical
  header, in table order, that contains one of \<open>amount\<close>, \<open>cost\<close>, \<open>price\<close>, \<open>total\<close>, \<open>spend\<close>,
  \<open>expense\<close>; when no header does, it is the second column if the table has more than one
  column and the first otherwise. The category column is the first canonical header that
  contains one of \<open>category\<close>, \<open>type\<close>, \<open>class\<close>, \<open>group\<close>, and the first column when no header
  does. The headers the selection runs on are the table's, trimmed and lower-cased.
\<close>

theorem column_selection:
  "cols \<noteq> [] \<Longrightarrow>
   amount_col cols =
     Inr (case find amount_like cols of
            Some c \<Rightarrow> c
          | None \<Rightarrow> if 1 < length cols then cols ! 1 else cols ! 0) \<and>
   category_col cols =
     Some (case find category_like cols of Some c \<Rightarrow> c | None \<Rightarrow> cols ! 0) \<and>
   (amount_like c \<longleftrightarrow>
      (\<exists>w\<in>set (map lit [''amount'', ''cost'', ''price'', ''total'', ''spend'', ''expense'']).
         \<exists>a b. c = a @ w @ b)) \<and>
   (category_like c \<longleftrightarrow>
      (\<exists>w\<in>set (map lit [''category'', ''type'', ''class'', ''group'']). \<exists>a b. c = a @ w @ b)) \<and>
   columns (clean_columns df) = map canonical (columns df)"
proof (intro conjI)
  assume ne: "cols \<noteq> []"
  then obtain c0 rest where cols: "cols = c0 # rest" by (cases cols) auto
  have "amount_col cols =
     (case find amount_like cols of
        None \<Rightarrow> (if length cols > 1 then Inr (cols ! 1)
               else case cols of [] \<Rightarrow> Inl IndexError | c # _ \<Rightarrow> Inr c)
      | Some c \<Rightarrow> Inr c)"
    unfolding amount_col_def amount_cols_def by (rule first_of_filter)
  then show "amount_col cols =
     Inr (case find amount_like cols of
            Some c \<Rightarrow> c
          | None \<Rightarrow> if 1 < length cols then cols ! 1 else cols ! 0)"
    using cols by (simp split: option.splits)
  have "category_col cols =
     (case find category_like cols of
        None \<Rightarrow> (if length cols > 0 then Some (cols ! 0) else None)
      | Some c \<Rightarrow> Some c)"
    unfolding category_col_def category_cols_def by (rule first_of_filter)
  then show "category_col cols =
     Some (case find category_like cols of Some c \<Rightarrow> c | None \<Rightarrow> cols ! 0)"
    using cols by (simp split: option.splits)
next
  show "amount_like c \<longleftrightarrow>
      (\<exists>w\<in>set (map lit [''amount'', ''cost'', ''price'', ''total'', ''spend'', ''expense'']).
         \<exists>a b. c = a @ w @ b)"
    unfolding amount_like_def amount_words_def by (rule list_ex_contains)
next
  show "category_like c \<longleftrightarrow>
      (\<exists>w\<in>set (map lit [''category'', ''type'', ''class'', ''group'']). \<exists>a b. c = a @ w @ b)"
    unfolding category_like_def category_words_def by (rule list_ex_contains)
next
  show "columns (clean_columns df) = map canonical (columns df)"
    by (simp add: columns_def clean_columns_def)
qed

theorem column_selection_witness:
  "map lit [''date'', ''memo'', ''value''] \<noteq> [] \<and>
   amount_col (map lit [''date'', ''memo'', ''value'']) = Inr (lit ''memo'') \<and>
   category_col (map lit [''date'', ''memo'', ''value'']) = Some (lit ''date'') \<and>
   amount_col (map lit [''kind'', ''group id'', ''unit price'', ''total'']) = Inr (lit ''unit price'') \<and>
   category_col (map lit [''kind'', ''group id'', ''unit price'', ''total'']) = Some (lit ''group id'') \<and>
   amount_col [lit ''memo''] = Inr (lit ''memo'') \<and>
   category_col [lit ''memo''] = Some (lit ''memo'')"
proof -
  have a: "map lit [''date'', ''memo'', ''value''] \<noteq> []" by simp
  have b: "map lit [''kind'', ''group id'', ''unit price'', ''total''] \<noteq> []" by simp
  have c: "[lit ''memo''] \<noteq> []" by simp
  show ?thesis
    using column_selection [OF a, of "[]" "[] :: unit frame"]
      column_selection [OF b, of "[]" "[] :: unit frame"]
      column_selection [OF c, of "[]" "[] :: unit frame"]
    by (simp add: amount_like_def category_like_def amount_words_def category_words_def)
qed

section \<open>A table without columns\<close>



section \<open>Data frames: lookups and assignments\<close>


lemma filter_name:
  "map fst (filter (\<lambda>p. fst p = k) df) = filter (\<lambda>n. n = k) (columns df)"
  by (induction df) (auto simp: columns_def)






text \<open>Whether a lookup raises, and what, is decided by the column names alone.\<close>

lemma getitem_cases:
  "getitem df k =
     (case filter (\<lambda>n. n = k) (columns df) of
        [] \<Rightarrow> Inl KeyError
      | [n] \<Rightarrow> Inr (snd (hd (filter (\<lambda>p. fst p = k) df)))
      | _ \<Rightarrow> Inl ValueError)"
proof -
  have len: "length (filter (\<lambda>p. fst p = k) df) = length (filter (\<lambda>n. n = k) (columns df))"
    by (metis filter_name length_map)
  show ?thesis
  proof (cases "filter (\<lambda>p. fst p = k) df")
    case Nil
    with len show ?thesis by (simp add: getitem_def)
  next
    case (Cons p ps)
    note c1 = this
    show ?thesis
    proof (cases ps)
      case Nil
      with c1 len obtain n where "filter (\<lambda>n. n = k) (columns df) = [n]"
        by (cases "filter (\<lambda>n. n = k) (columns df)") auto
      with c1 Nil show ?thesis by (simp add: getitem_def)
    next
      case (Cons q qs)
      with c1 len obtain n n' ns where "filter (\<lambda>n. n = k) (columns df) = n # n' # ns"
        by (cases "filter (\<lambda>n. n = k) (columns df)"; cases "tl (filter (\<lambda>n. n = k) (columns df))") auto
      with c1 Cons show ?thesis by (simp add: getitem_def)
    qed
  qed
qed

lemma getitem_raises_alike:
  assumes "columns a = columns b"
  shows "getitem a k = Inl e \<longleftrightarrow> getitem b k = Inl e"
  by (simp add: getitem_cases [of a] getitem_cases [of b] assms split: list.splits)



lemma distinct_count:
  "distinct xs \<Longrightarrow> length (filter (\<lambda>n. n = k) xs) \<le> 1"
  by (induction xs) (auto simp: filter_empty_conv)



subsection \<open>The mask and the sum\<close>







section \<open>The pipeline\<close>















lemma round2_grid: "\<exists>k::int. round2 x = of_int k / 100"
  unfolding round2_def Let_def by blast

lemma round2_near: "\<bar>round2 x - x\<bar> \<le> 1 / 200"
proof -
  define y where "y = x * 100"
  define f where "f = \<lfloor>y\<rfloor>"
  have lo: "of_int f \<le> y" unfolding f_def by simp
  have hi: "y < of_int f + 1" unfolding f_def by linarith
  have x: "x = y / 100" by (simp add: y_def)
  have r: "round2 x = of_int (if y - of_int f < 1 / 2 then f
                 else if 1 / 2 < y - of_int f then f + 1
                 else if even f then f else f + 1) / 100"
    by (simp add: round2_def Let_def y_def f_def)
  have "\<bar>of_int (if y - of_int f < 1 / 2 then f
                 else if 1 / 2 < y - of_int f then f + 1
                 else if even f then f else f + 1) / 100 - y / 100\<bar> \<le> 1 / 200"
    using lo hi by (auto simp: abs_le_iff field_simps)
  then show ?thesis
    by (simp only: r x [symmetric])
qed





section \<open>The food filter\<close>




end
